theory Spec2Isabelle
  imports Main
begin

section \<open>Time\<close>

text \<open>
  A Python \<open>datetime\<close> has microsecond resolution: it is modelled as the number of
  microseconds since the epoch, a \<open>timedelta\<close> as a number of microseconds. The clock
  (\<open>datetime.utcnow()\<close>, \<open>datetime.now()\<close>) is an argument \<open>now\<close> of every function
  that reads it; the readings taken within one call are one instant.
\<close>

type_synonym datetime = int
type_synonym timedelta = int

definition minutes :: "int \<Rightarrow> timedelta" where
  "minutes n = n * 60000000"

text \<open>\<open>calendar.timegm(d.utctimetuple())\<close>: whole seconds since the epoch, the
  microseconds dropped.\<close>

definition timegm :: "datetime \<Rightarrow> int" where
  "timegm d = d div 1000000"

section \<open>Data model: \<open>models.py\<close> and \<open>schemas.py\<close>\<close>

text \<open>The row of table \<open>users\<close>. The column \<open>id\<close> is \<open>user_id\<close> here. A flag
  \<open>is_active\<close> that is NULL is falsy in Python and is \<open>False\<close> here.\<close>

record User =
  user_id :: int
  username :: string
  email :: "string option"
  hashed_password :: string
  is_active :: bool
  date_joined :: datetime

text \<open>The row of table \<open>inventory_items\<close>; \<open>'p\<close> is the type of the Float column
  \<open>price\<close>, which the server only stores. The column \<open>owner_id\<close> is nullable.\<close>

record 'p InventoryItem =
  item_id :: int
  name :: string
  description :: "string option"
  quantity :: int
  price :: 'p
  date_created :: datetime
  date_updated :: "datetime option"
  owner_id :: "int option"

text \<open>The database session: the two tables, rows in the order the store returns them.\<close>

record 'p Session =
  users :: "User list"
  inventory_items :: "'p InventoryItem list"

record UserCreate =
  uc_username :: string
  uc_email :: "string option"
  uc_password :: string

text \<open>\<open>InventoryItemUpdate.dict(exclude_unset=True)\<close>: a field that the request leaves
  out is \<open>None\<close>. The nullable \<open>description\<close> can also be set to null
  (\<open>Some None\<close>). A null for a column that is not nullable makes the store raise at
  commit: that is a \<open>fault\<close> of \<open>crud.update_item\<close> below.\<close>

record 'p InventoryItemUpdate =
  iu_name :: "string option"
  iu_description :: "string option option"
  iu_quantity :: "int option"
  iu_price :: "'p option"

record OAuth2PasswordRequestForm =
  form_username :: string
  form_password :: string

record 'tok Token =
  access_token :: 'tok
  token_type :: string

section \<open>Exceptions\<close>

record HTTPException =
  status_code :: nat
  detail :: string
  headers :: "(string \<times> string) list"

text \<open>What a call can raise: FastAPI's \<open>HTTPException\<close>, a \<open>ValueError\<close>, or the
  store's \<open>SQLAlchemyError\<close> (given by its message).\<close>

datatype exn =
    HTTP HTTPException
  | ValueError string
  | SQLAlchemyError string

section \<open>Password hashing: \<open>pwd_context\<close>\<close>

text \<open>
  \<open>pwd_context = CryptContext(schemes=["bcrypt"], deprecated="auto")\<close> is an object of
  the library passlib. It is a parameter of the model: \<open>ctx_hash\<close> takes the salt that
  the library draws at random, and both methods may raise.
\<close>

record 'salt CryptContext =
  ctx_hash :: "'salt \<Rightarrow> string \<Rightarrow> exn + string"
  ctx_verify :: "string \<Rightarrow> string \<Rightarrow> exn + bool"

section \<open>\<open>crud.py\<close>: users\<close>

definition get_user :: "'p Session \<Rightarrow> int \<Rightarrow> User option" where
  "get_user db uid = find (\<lambda>u. user_id u = uid) (users db)"

definition get_user_by_username :: "'p Session \<Rightarrow> string \<Rightarrow> User option" where
  "get_user_by_username db uname = find (\<lambda>u. username u = uname) (users db)"

definition get_user_by_email :: "'p Session \<Rightarrow> string \<Rightarrow> User option" where
  "get_user_by_email db mail = find (\<lambda>u. email u = Some mail) (users db)"

definition verify_password :: "'salt CryptContext \<Rightarrow> string \<Rightarrow> string \<Rightarrow> exn + bool" where
  "verify_password pwd_context plain_password hashed = ctx_verify pwd_context plain_password hashed"

definition get_password_hash :: "'salt CryptContext \<Rightarrow> 'salt \<Rightarrow> string \<Rightarrow> exn + string" where
  "get_password_hash pwd_context salt password = ctx_hash pwd_context salt password"

text \<open>The primary key that the store gives a new row: one more than the largest in use.\<close>

definition next_id :: "int list \<Rightarrow> int" where
  "next_id ids = fold max ids 0 + 1"

text \<open>
  \<open>create_user\<close>. \<open>fault\<close> is the \<open>SQLAlchemyError\<close> that the store raises at
  \<open>db.commit()\<close>, if any; nothing here catches it. The result is the session after the
  call and the new row.
\<close>

definition create_user ::
  "'salt CryptContext \<Rightarrow> 'salt \<Rightarrow> string option \<Rightarrow> 'p Session \<Rightarrow> UserCreate \<Rightarrow> datetime
    \<Rightarrow> exn + ('p Session \<times> User)" where
  "create_user pwd_context salt fault db user now =
    (case get_user_by_username db (uc_username user) of
       Some _ \<Rightarrow> Inl (ValueError ''Username already registered'')
     | None \<Rightarrow>
        (if (case uc_email user of
               None \<Rightarrow> False
             | Some mail \<Rightarrow> mail \<noteq> [] \<and> get_user_by_email db mail \<noteq> None)
         then Inl (ValueError ''Email already registered'')
         else
          (case get_password_hash pwd_context salt (uc_password user) of
             Inl e \<Rightarrow> Inl e
           | Inr hashed \<Rightarrow>
              (let db_user = \<lparr>user_id = next_id (map user_id (users db)),
                              username = uc_username user,
                              email = uc_email user,
                              hashed_password = hashed,
                              is_active = True,
                              date_joined = now\<rparr>
               in case fault of
                    Some msg \<Rightarrow> Inl (SQLAlchemyError msg)
                  | None \<Rightarrow> Inr (db\<lparr>users := users db @ [db_user]\<rparr>, db_user)))))"

text \<open>
  \<open>crud.authenticate_user\<close>: the user is looked up by username, and by email only when
  that found nothing and the submitted string contains \<open>@\<close>.
\<close>

definition crud_authenticate_user ::
  "'salt CryptContext \<Rightarrow> 'p Session \<Rightarrow> string \<Rightarrow> string \<Rightarrow> exn + User option" where
  "crud_authenticate_user pwd_context db uname password =
    (let user = get_user_by_username db uname;
         user = (if user = None \<and> CHR ''@'' \<in> set uname
                 then get_user_by_email db uname else user)
     in case user of
          None \<Rightarrow> Inr None
        | Some u \<Rightarrow>
           (case ctx_verify pwd_context password (hashed_password u) of
              Inl e \<Rightarrow> Inl e
            | Inr ok \<Rightarrow> if \<not> ok then Inr None else Inr (Some u)))"

section \<open>\<open>crud.py\<close>: inventory items\<close>

definition get_item :: "'p Session \<Rightarrow> int \<Rightarrow> 'p InventoryItem option" where
  "get_item db iid = find (\<lambda>i. item_id i = iid) (inventory_items db)"

text \<open>
  \<open>crud.update_item\<close>: every field of the update is set on the row, then
  \<open>date_updated\<close>. \<open>fault\<close> is the \<open>SQLAlchemyError\<close> that the store raises in the
  \<open>try\<close> block, if any; it is caught and becomes a 500.
\<close>

definition crud_update_item ::
  "string option \<Rightarrow> 'p Session \<Rightarrow> 'p InventoryItem \<Rightarrow> 'p InventoryItemUpdate \<Rightarrow> datetime
    \<Rightarrow> exn + ('p Session \<times> 'p InventoryItem)" where
  "crud_update_item fault db db_item item_update now =
    (let db_item = (case iu_name item_update of
                      None \<Rightarrow> db_item | Some v \<Rightarrow> db_item\<lparr>name := v\<rparr>);
         db_item = (case iu_description item_update of
                      None \<Rightarrow> db_item | Some v \<Rightarrow> db_item\<lparr>description := v\<rparr>);
         db_item = (case iu_quantity item_update of
                      None \<Rightarrow> db_item | Some v \<Rightarrow> db_item\<lparr>quantity := v\<rparr>);
         db_item = (case iu_price item_update of
                      None \<Rightarrow> db_item | Some v \<Rightarrow> db_item\<lparr>price := v\<rparr>);
         db_item = db_item\<lparr>date_updated := Some now\<rparr>
     in case fault of
          Some msg \<Rightarrow>
            Inl (HTTP \<lparr>status_code = 500, detail = ''Error updating item: '' @ msg,
                       headers = []\<rparr>)
        | None \<Rightarrow>
            Inr (db\<lparr>inventory_items :=
                      map (\<lambda>i. if item_id i = item_id db_item then db_item else i)
                        (inventory_items db)\<rparr>,
                 db_item))"

definition crud_delete_item ::
  "string option \<Rightarrow> 'p Session \<Rightarrow> int \<Rightarrow> exn + ('p Session \<times> bool)" where
  "crud_delete_item fault db iid =
    (case get_item db iid of
       None \<Rightarrow> Inl (HTTP \<lparr>status_code = 404, detail = ''Item not found'', headers = []\<rparr>)
     | Some db_item \<Rightarrow>
        (case fault of
           Some msg \<Rightarrow>
             Inl (HTTP \<lparr>status_code = 500, detail = ''Error deleting item: '' @ msg,
                        headers = []\<rparr>)
         | None \<Rightarrow>
             Inr (db\<lparr>inventory_items :=
                       filter (\<lambda>i. item_id i \<noteq> item_id db_item) (inventory_items db)\<rparr>,
                  True)))"

section \<open>\<open>auth.py\<close>\<close>

subsection \<open>Security configuration\<close>

definition SECRET_KEY :: string where
  "SECRET_KEY = ''your-secret-key-please-change-in-production''"

definition ALGORITHM :: string where
  "ALGORITHM = ''HS256''"

definition ACCESS_TOKEN_EXPIRE_MINUTES :: int where
  "ACCESS_TOKEN_EXPIRE_MINUTES = 30"

text \<open>
  The module body of \<open>auth.py\<close>, run when the server starts in a process whose
  environment is \<open>environ\<close>: it either raises or binds the three settings. The body
  assigns three literals and reads nothing.
\<close>

record settings =
  secret_key :: string
  algorithm :: string
  access_token_expire_minutes :: int

definition auth_module :: "(string \<rightharpoonup> string) \<Rightarrow> exn + settings" where
  "auth_module environ =
     Inr \<lparr>secret_key = SECRET_KEY, algorithm = ALGORITHM,
          access_token_expire_minutes = ACCESS_TOKEN_EXPIRE_MINUTES\<rparr>"

subsection \<open>Tokens: \<open>jose.jwt\<close>\<close>

text \<open>The claims of a token. \<open>exp\<close> and \<open>iat\<close> are datetimes in the dictionary that
  \<open>create_access_token\<close> builds and seconds since the epoch in a token.\<close>

record claims =
  sub :: "string option"
  exp :: "int option"
  iat :: "int option"

text \<open>
  Modelled from the spec: the token wire format of the library python-jose, which is
  not part of the repository. A token is three dot-separated base64url segments: the
  header (algorithm identifier), the payload (claims \<open>sub\<close>, \<open>iat\<close>, \<open>exp\<close>) and the
  signature. A string of that shape is given by its three parts; any other string is
  \<open>Unparseable\<close>.
\<close>

datatype 'sig jwt = Unparseable string | JWT string claims 'sig

datatype JWTError = MalformedToken | ExpiredToken

text \<open>
  Modelled from the spec: \<open>jwt.encode\<close> of python-jose. The signature is an HMAC over
  header and payload using the secret; the HMAC is the parameter \<open>mac\<close>. Clock values
  are Unix epoch seconds.
\<close>

definition jwt_encode ::
  "(string \<Rightarrow> string \<Rightarrow> claims \<Rightarrow> 'sig) \<Rightarrow> claims \<Rightarrow> string \<Rightarrow> string \<Rightarrow> 'sig jwt" where
  "jwt_encode mac to_encode key alg =
    (let payload = to_encode\<lparr>exp := map_option timegm (exp to_encode),
                              iat := map_option timegm (iat to_encode)\<rparr>
     in JWT alg payload (mac key alg payload))"

text \<open>
  Modelled from the spec: \<open>jwt.decode\<close> of python-jose. It parses the assertion,
  verifies the signature against the secret (reject on any mismatch, truncation, or
  unsupported signing scheme) and checks \<open>now < expiry\<close> (reject as expired otherwise;
  clock skew is not compensated).
\<close>

definition jwt_decode ::
  "(string \<Rightarrow> string \<Rightarrow> claims \<Rightarrow> 'sig) \<Rightarrow> 'sig jwt \<Rightarrow> string \<Rightarrow> string list \<Rightarrow> datetime
    \<Rightarrow> JWTError + claims" where
  "jwt_decode mac token key algorithms now =
    (case token of
       Unparseable _ \<Rightarrow> Inl MalformedToken
     | JWT alg payload signature \<Rightarrow>
        (if alg \<notin> set algorithms \<or> signature \<noteq> mac key alg payload then Inl MalformedToken
         else case exp payload of
                None \<Rightarrow> Inr payload
              | Some expiry \<Rightarrow> if timegm now < expiry then Inr payload else Inl ExpiredToken))"

subsection \<open>Issuing and resolving tokens\<close>

text \<open>\<open>if expires_delta:\<close> is false for \<open>None\<close> and for a zero \<open>timedelta\<close>.\<close>

definition create_access_token ::
  "(string \<Rightarrow> string \<Rightarrow> claims \<Rightarrow> 'sig) \<Rightarrow> claims \<Rightarrow> timedelta option \<Rightarrow> datetime \<Rightarrow> 'sig jwt" where
  "create_access_token mac data expires_delta now =
    (let to_encode = data;
         expire = (case expires_delta of
                     None \<Rightarrow> now + minutes 15
                   | Some d \<Rightarrow> if d \<noteq> 0 then now + d else now + minutes 15);
         to_encode = to_encode\<lparr>exp := Some expire, iat := Some now\<rparr>
     in jwt_encode mac to_encode SECRET_KEY ALGORITHM)"

definition credentials_exception :: HTTPException where
  "credentials_exception =
     \<lparr>status_code = 401, detail = ''Could not validate credentials'',
      headers = [(''WWW-Authenticate'', ''Bearer'')]\<rparr>"

definition get_current_user ::
  "(string \<Rightarrow> string \<Rightarrow> claims \<Rightarrow> 'sig) \<Rightarrow> 'sig jwt \<Rightarrow> 'p Session \<Rightarrow> datetime \<Rightarrow> exn + User" where
  "get_current_user mac token db now =
    (case jwt_decode mac token SECRET_KEY [ALGORITHM] now of
       Inl _ \<Rightarrow> Inl (HTTP credentials_exception)
     | Inr payload \<Rightarrow>
        (case sub payload of
           None \<Rightarrow> Inl (HTTP credentials_exception)
         | Some uname \<Rightarrow>
            (case get_user_by_username db uname of
               None \<Rightarrow> Inl (HTTP credentials_exception)
             | Some user \<Rightarrow>
                (if \<not> is_active user
                 then Inl (HTTP \<lparr>status_code = 400, detail = ''Inactive user'', headers = []\<rparr>)
                 else Inr user))))"

definition get_current_active_user ::
  "(string \<Rightarrow> string \<Rightarrow> claims \<Rightarrow> 'sig) \<Rightarrow> 'sig jwt \<Rightarrow> 'p Session \<Rightarrow> datetime \<Rightarrow> exn + User" where
  "get_current_active_user mac token db now = get_current_user mac token db now"

definition auth_authenticate_user ::
  "'salt CryptContext \<Rightarrow> 'p Session \<Rightarrow> string \<Rightarrow> string \<Rightarrow> exn + User option" where
  "auth_authenticate_user pwd_context db uname password =
    (case crud_authenticate_user pwd_context db uname password of
       Inl e \<Rightarrow> Inl e
     | Inr None \<Rightarrow> Inr None
     | Inr (Some user) \<Rightarrow> Inr (Some user))"

section \<open>\<open>main.py\<close>\<close>

subsection \<open>Authentication endpoints\<close>

definition login_for_access_token ::
  "'salt CryptContext \<Rightarrow> (string \<Rightarrow> string \<Rightarrow> claims \<Rightarrow> 'sig) \<Rightarrow> 'p Session
    \<Rightarrow> OAuth2PasswordRequestForm \<Rightarrow> datetime \<Rightarrow> exn + 'sig jwt Token" where
  "login_for_access_token pwd_context mac db form_data now =
    (case auth_authenticate_user pwd_context db (form_username form_data)
            (form_password form_data) of
       Inl e \<Rightarrow> Inl e
     | Inr None \<Rightarrow>
         Inl (HTTP \<lparr>status_code = 401, detail = ''Incorrect username or password'',
                    headers = [(''WWW-Authenticate'', ''Bearer'')]\<rparr>)
     | Inr (Some user) \<Rightarrow>
        (let access_token_expires = minutes ACCESS_TOKEN_EXPIRE_MINUTES;
             access_token =
               create_access_token mac \<lparr>sub = Some (username user), exp = None, iat = None\<rparr>
                 (Some access_token_expires) now
         in Inr \<lparr>access_token = access_token, token_type = ''bearer''\<rparr>))"

text \<open>\<open>register_user\<close> receives a \<open>UserCreate\<close> that the framework has validated.\<close>

definition register_user ::
  "'salt CryptContext \<Rightarrow> 'salt \<Rightarrow> string option \<Rightarrow> 'p Session \<Rightarrow> UserCreate \<Rightarrow> datetime
    \<Rightarrow> exn + ('p Session \<times> User)" where
  "register_user pwd_context salt fault db user now =
     create_user pwd_context salt fault db user now"

subsection \<open>User and inventory endpoints\<close>

text \<open>
  A protected endpoint first runs its dependency \<open>auth.get_current_active_user\<close> on the
  bearer token of the request; what that raises is what the endpoint raises.
\<close>

definition read_users_me ::
  "(string \<Rightarrow> string \<Rightarrow> claims \<Rightarrow> 'sig) \<Rightarrow> 'sig jwt \<Rightarrow> 'p Session \<Rightarrow> datetime \<Rightarrow> exn + User" where
  "read_users_me mac token db now =
    (case get_current_active_user mac token db now of
       Inl e \<Rightarrow> Inl e
     | Inr current_user \<Rightarrow> Inr current_user)"

definition read_item ::
  "(string \<Rightarrow> string \<Rightarrow> claims \<Rightarrow> 'sig) \<Rightarrow> 'sig jwt \<Rightarrow> 'p Session \<Rightarrow> datetime \<Rightarrow> int
    \<Rightarrow> exn + 'p InventoryItem" where
  "read_item mac token db now iid =
    (case get_current_active_user mac token db now of
       Inl e \<Rightarrow> Inl e
     | Inr current_user \<Rightarrow>
        (case get_item db iid of
           None \<Rightarrow> Inl (HTTP \<lparr>status_code = 404, detail = ''Item not found'', headers = []\<rparr>)
         | Some db_item \<Rightarrow>
            (if owner_id db_item \<noteq> Some (user_id current_user)
             then Inl (HTTP \<lparr>status_code = 403, detail = ''Not enough permissions'',
                             headers = []\<rparr>)
             else Inr db_item)))"

definition update_item ::
  "(string \<Rightarrow> string \<Rightarrow> claims \<Rightarrow> 'sig) \<Rightarrow> string option \<Rightarrow> 'sig jwt \<Rightarrow> 'p Session \<Rightarrow> datetime
    \<Rightarrow> int \<Rightarrow> 'p InventoryItemUpdate \<Rightarrow> exn + ('p Session \<times> 'p InventoryItem)" where
  "update_item mac fault token db now iid item =
    (case get_current_active_user mac token db now of
       Inl e \<Rightarrow> Inl e
     | Inr current_user \<Rightarrow>
        (case get_item db iid of
           None \<Rightarrow> Inl (HTTP \<lparr>status_code = 404, detail = ''Item not found'', headers = []\<rparr>)
         | Some db_item \<Rightarrow>
            (if owner_id db_item \<noteq> Some (user_id current_user)
             then Inl (HTTP \<lparr>status_code = 403, detail = ''Not enough permissions'',
                             headers = []\<rparr>)
             else crud_update_item fault db db_item item now)))"

text \<open>\<open>delete_item\<close> returns \<open>{"ok": True}\<close>: the \<open>bool\<close> of the result.\<close>

definition delete_item ::
  "(string \<Rightarrow> string \<Rightarrow> claims \<Rightarrow> 'sig) \<Rightarrow> string option \<Rightarrow> 'sig jwt \<Rightarrow> 'p Session \<Rightarrow> datetime
    \<Rightarrow> int \<Rightarrow> exn + ('p Session \<times> bool)" where
  "delete_item mac fault token db now iid =
    (case get_current_active_user mac token db now of
       Inl e \<Rightarrow> Inl e
     | Inr current_user \<Rightarrow>
        (case get_item db iid of
           None \<Rightarrow> Inl (HTTP \<lparr>status_code = 404, detail = ''Item not found'', headers = []\<rparr>)
         | Some db_item \<Rightarrow>
            (if owner_id db_item \<noteq> Some (user_id current_user)
             then Inl (HTTP \<lparr>status_code = 403, detail = ''Not enough permissions'',
                             headers = []\<rparr>)
             else (case crud_delete_item fault db iid of
                     Inl e \<Rightarrow> Inl e
                   | Inr (db', _) \<Rightarrow> Inr (db', True)))))"

subsection \<open>Error handlers\<close>

text \<open>
  A \<open>JSONResponse\<close>: the status, the content, and the headers passed to the
  constructor or set on the response afterwards. The content is \<open>{"detail": d}\<close>
  (\<open>Detail d\<close>) or the value that the endpoint returned.
\<close>

datatype 'a content = Detail string | Returned 'a

record 'a JSONResponse =
  response_status :: nat
  response_content :: "'a content"
  response_headers :: "(string \<times> string) list"

definition http_exception_handler :: "HTTPException \<Rightarrow> 'a JSONResponse" where
  "http_exception_handler exc =
     \<lparr>response_status = status_code exc, response_content = Detail (detail exc),
      response_headers = []\<rparr>"

definition global_exception_handler :: "exn \<Rightarrow> 'a JSONResponse" where
  "global_exception_handler exc =
     \<lparr>response_status = 500, response_content = Detail ''Internal server error'',
      response_headers = []\<rparr>"

subsection \<open>Middleware for request timing\<close>

text \<open>\<open>response.headers[k] = v\<close>: the header \<open>k\<close> is replaced, or appended when the
  response has none.\<close>

fun set_header :: "string \<Rightarrow> string \<Rightarrow> (string \<times> string) list \<Rightarrow> (string \<times> string) list" where
  "set_header k v [] = [(k, v)]"
| "set_header k v (h # hs) = (if fst h = k then (k, v) # hs else h # set_header k v hs)"

text \<open>
  \<open>add_process_time_header\<close>, applied to the response that \<open>call_next\<close> returned.
  \<open>start_time\<close> is the clock before the call and \<open>end_time\<close> the clock after it.
  \<open>process_time\<close> is a float, the elapsed milliseconds; its text
  \<open>f"{process_time:.2f}ms"\<close> is the parameter \<open>fmt\<close>, a function of the elapsed time.
\<close>

definition add_process_time_header ::
  "(timedelta \<Rightarrow> string) \<Rightarrow> datetime \<Rightarrow> datetime \<Rightarrow> 'a JSONResponse \<Rightarrow> 'a JSONResponse" where
  "add_process_time_header fmt start_time end_time resp =
    (let process_time = end_time - start_time
     in resp\<lparr>response_headers :=
               set_header ''X-Process-Time'' (fmt process_time) (response_headers resp)\<rparr>)"

subsection \<open>The response to a request\<close>

text \<open>
  When the endpoint returns, the response has the status code of its route and the
  value; when it raises an \<open>HTTPException\<close>, the response is that of the handler
  registered for it (\<open>@app.exception_handler(HTTPException)\<close>). Both pass through the
  middleware \<open>add_process_time_header\<close>. Any other exception leaves the middleware
  through \<open>await call_next(request)\<close>, so the handler registered for \<open>Exception\<close>
  answers outside it and its response gets no \<open>X-Process-Time\<close>. The headers that
  \<open>CORSMiddleware\<close> adds to a request with an \<open>Origin\<close> header are not modelled: the
  requests here carry none.
\<close>

definition response ::
  "(timedelta \<Rightarrow> string) \<Rightarrow> datetime \<Rightarrow> datetime \<Rightarrow> nat \<Rightarrow> exn + 'a \<Rightarrow> 'a JSONResponse" where
  "response fmt start_time end_time route_status result =
    (case result of
       Inr v \<Rightarrow>
         add_process_time_header fmt start_time end_time
           \<lparr>response_status = route_status, response_content = Returned v,
            response_headers = []\<rparr>
     | Inl (HTTP exc) \<Rightarrow>
         add_process_time_header fmt start_time end_time (http_exception_handler exc)
     | Inl exc \<Rightarrow> global_exception_handler exc)"

text \<open>The value that a call returns to the client: the session is not part of it.\<close>

definition returned :: "exn + ('s \<times> 'a) \<Rightarrow> exn + 'a" where
  "returned result = (case result of Inl e \<Rightarrow> Inl e | Inr (_, v) \<Rightarrow> Inr v)"

section \<open>\<open>erp_frontend/app.py\<close>: the client session\<close>

text \<open>
  \<open>st.session_state\<close>. The token is the string that the login endpoint returned, the
  user the JSON object of \<open>/users/me\<close> (\<open>'u\<close>; it has fields, so it is truthy
  whenever it is set), the inventory a list of JSON objects (\<open>'i\<close>).
\<close>

record ('u, 'i) session_state =
  token :: "string option"
  user :: "'u option"
  last_activity :: "datetime option"
  inventory :: "'i list"
  filtered_inventory :: "'i list"

text \<open>
  What one run of the script does that can be observed: a message shown with
  \<open>st.error\<close>, a request sent to the API (method, endpoint, value of the
  \<open>Authorization\<close> header), \<open>st.rerun()\<close>, the login form, and the main interface
  (sidebar and selected page, whose widgets are not modelled).
\<close>

datatype event =
    st_error string
  | api_request string string string
  | st_rerun
  | show_login_form
  | show_interface

text \<open>A response of the API to the client: its status and its JSON body.\<close>

record 'i api_response =
  api_status :: nat
  api_json :: "'i list"

text \<open>A call returns, or stops the run of the script with \<open>st.rerun()\<close>.\<close>

datatype 'r flow = Return 'r | Rerun

definition check_session_timeout ::
  "('u, 'i) session_state \<Rightarrow> datetime \<Rightarrow> ('u, 'i) session_state \<times> event list \<times> bool" where
  "check_session_timeout st now =
    (case last_activity st of
       None \<Rightarrow> (st\<lparr>last_activity := Some now\<rparr>, [], True)
     | Some previous \<Rightarrow>
        (let inactive_duration = now - previous
         in if inactive_duration > minutes 30
            then (st\<lparr>token := None, user := None, last_activity := None\<rparr>,
                  [st_error ''Your session has timed out. Please log in again.''],
                  False)
            else (st\<lparr>last_activity := Some now\<rparr>, [], True)))"

text \<open>
  \<open>make_authenticated_request\<close>. The API is the parameter \<open>api\<close>: for a method, an
  endpoint and an \<open>Authorization\<close> header it gives the response, or the message of the
  \<open>RequestException\<close> that \<open>requests.request\<close> raises.
\<close>

definition make_authenticated_request ::
  "(string \<Rightarrow> string \<Rightarrow> string \<Rightarrow> string + 'i api_response) \<Rightarrow> ('u, 'i) session_state
    \<Rightarrow> string \<Rightarrow> string
    \<Rightarrow> ('u, 'i) session_state \<times> event list \<times> 'i api_response option flow" where
  "make_authenticated_request api st method endpoint =
    (case token st of
       None \<Rightarrow> (st, [], Return None)
     | Some t \<Rightarrow>
        (if t = [] then (st, [], Return None)
         else
          (let authorization = ''Bearer '' @ t
           in case api method endpoint authorization of
                Inl e \<Rightarrow>
                  (st,
                   [api_request method endpoint authorization,
                    st_error (''API request failed: '' @ e)],
                   Return None)
              | Inr resp \<Rightarrow>
                  (if api_status resp = 401
                   then (st\<lparr>token := None, user := None\<rparr>,
                         [api_request method endpoint authorization,
                          st_error ''Your session has expired. Please log in again.'',
                          st_rerun],
                         Rerun)
                   else (st, [api_request method endpoint authorization],
                         Return (Some resp))))))"

definition load_inventory ::
  "(string \<Rightarrow> string \<Rightarrow> string \<Rightarrow> string + 'i api_response) \<Rightarrow> ('u, 'i) session_state
    \<Rightarrow> ('u, 'i) session_state \<times> event list \<times> unit flow" where
  "load_inventory api st =
    (case make_authenticated_request api st ''GET'' ''/items/'' of
       (st, evs, Rerun) \<Rightarrow> (st, evs, Rerun)
     | (st, evs, Return None) \<Rightarrow> (st, evs, Return ())
     | (st, evs, Return (Some resp)) \<Rightarrow>
         (if api_status resp = 200
          then (st\<lparr>inventory := api_json resp, filtered_inventory := api_json resp\<rparr>,
                evs, Return ())
          else (st, evs, Return ())))"

text \<open>\<open>main\<close>: one run of the script, that is one interaction of the user.\<close>

definition main ::
  "(string \<Rightarrow> string \<Rightarrow> string \<Rightarrow> string + 'i api_response) \<Rightarrow> ('u, 'i) session_state
    \<Rightarrow> datetime \<Rightarrow> ('u, 'i) session_state \<times> event list" where
  "main api st now =
    (if token st = None \<or> token st = Some [] \<or> user st = None
     then (st, [show_login_form])
     else
      (case check_session_timeout st now of
         (st, evs, False) \<Rightarrow> (st, evs)
       | (st, evs, True) \<Rightarrow>
          (case (if inventory st = [] then load_inventory api st else (st, [], Return ())) of
             (st, evs', Rerun) \<Rightarrow> (st, evs @ evs')
           | (st, evs', Return _) \<Rightarrow> (st, evs @ evs' @ [show_interface]))))"

section \<open>Example data\<close>

text \<open>
  A toy password context (the digest is the salt, \<open>$\<close> and the password) and a toy
  MAC (the signature is the triple that was signed), for running the model on
  concrete requests.
\<close>

definition example_pwd_context :: "string CryptContext" where
  "example_pwd_context =
     \<lparr>ctx_hash = (\<lambda>salt password. Inr (salt @ ''$'' @ password)),
      ctx_verify = (\<lambda>password hashed.
         Inr (dropWhile (\<lambda>c. c \<noteq> CHR ''$'') hashed = ''$'' @ password))\<rparr>"

definition example_mac :: "string \<Rightarrow> string \<Rightarrow> claims \<Rightarrow> string \<times> string \<times> claims" where
  "example_mac key alg payload = (key, alg, payload)"

definition alice :: User where
  "alice = \<lparr>user_id = 1, username = ''alice'', email = Some ''alice@example.com'',
            hashed_password = ''s1$Passw0rd1'', is_active = True, date_joined = 0\<rparr>"

definition bob :: User where
  "bob = \<lparr>user_id = 2, username = ''bob'', email = Some ''bob@example.com'',
          hashed_password = ''s2$Secret123'', is_active = False, date_joined = 0\<rparr>"

definition laptop :: "nat InventoryItem" where
  "laptop = \<lparr>item_id = 1, name = ''Laptop'', description = None, quantity = 10,
             price = 999, date_created = 0, date_updated = None, owner_id = Some 1\<rparr>"

definition desk :: "nat InventoryItem" where
  "desk = \<lparr>item_id = 2, name = ''Desk'', description = None, quantity = 3,
           price = 150, date_created = 0, date_updated = None, owner_id = Some 2\<rparr>"

text \<open>\<open>carol\<close> has an email without \<open>@\<close>: the column takes any string.\<close>

definition carol :: User where
  "carol = \<lparr>user_id = 3, username = ''carol'', email = Some ''carol.example.com'',
            hashed_password = ''s3$Passw0rd3'', is_active = True, date_joined = 0\<rparr>"

definition example_db :: "nat Session" where
  "example_db = \<lparr>users = [alice, bob, carol], inventory_items = [laptop, desk]\<rparr>"

text \<open>The token that a login of \<open>alice\<close> at time 0 issues.\<close>

definition alice_token :: "(string \<times> string \<times> claims) jwt" where
  "alice_token =
     create_access_token example_mac \<lparr>sub = Some ''alice'', exp = None, iat = None\<rparr>
       (Some (minutes 30)) 0"

text \<open>A client session that logged in at time 0, and an API that answers every
  request with two items.\<close>

definition example_session :: "(string, nat) session_state" where
  "example_session =
     \<lparr>token = Some ''header.payload.signature'', user = Some ''alice'',
      last_activity = Some 0, inventory = [], filtered_inventory = []\<rparr>"

definition example_api :: "string \<Rightarrow> string \<Rightarrow> string \<Rightarrow> string + nat api_response" where
  "example_api method endpoint authorization = Inr \<lparr>api_status = 200, api_json = [1, 2]\<rparr>"

text \<open>
  The text of \<open>f"{process_time:.2f}ms"\<close> for an elapsed time in microseconds: the
  milliseconds with two decimals, rounded to the nearest hundredth (an elapsed time
  midway between two hundredths is rounded up here; Python lets the float decide).
\<close>

fun digits :: "nat \<Rightarrow> string" where
  "digits n =
    (if n < 10 then [''0123456789'' ! n]
     else digits (n div 10) @ [''0123456789'' ! (n mod 10)])"

definition example_format :: "timedelta \<Rightarrow> string" where
  "example_format d =
    (let hundredths = (nat \<bar>d\<bar> + 5) div 10
     in (if d < 0 then ''-'' else [])
        @ digits (hundredths div 100) @ ''.''
        @ [''0123456789'' ! (hundredths mod 100 div 10), ''0123456789'' ! (hundredths mod 10)]
        @ ''ms'')"

section \<open>Auxiliary facts\<close>

declare digits.simps [simp del]

lemmas example_defs =
  example_pwd_context_def example_mac_def alice_def bob_def laptop_def desk_def
  carol_def example_db_def alice_token_def example_session_def example_api_def

lemmas server_defs =
  minutes_def timegm_def get_user_by_username_def get_user_by_email_def get_item_def
  crud_authenticate_user_def auth_authenticate_user_def login_for_access_token_def
  create_access_token_def jwt_encode_def jwt_decode_def get_current_user_def
  get_current_active_user_def credentials_exception_def SECRET_KEY_def ALGORITHM_def
  ACCESS_TOKEN_EXPIRE_MINUTES_def Let_def

lemma find_username: "find (\<lambda>x. username x = n) xs = Some u \<Longrightarrow> username u = n \<and> u \<in> set xs"
  by (induction xs) (auto split: if_splits)

lemma find_some_member: "x \<in> set xs \<Longrightarrow> P x \<Longrightarrow> \<exists>y. find P xs = Some y"
  by (cases "find P xs") (auto simp: find_None_iff)

lemma authenticate_None:
  assumes "get_user_by_username db u1 = None"
      and "CHR ''@'' \<notin> set u1 \<or> get_user_by_email db u1 = None"
  shows "crud_authenticate_user pwd_context db u1 p1 = Inr None"
  using assms by (auto simp: crud_authenticate_user_def)

lemma authenticate_found:
  assumes "get_user_by_username db u2 = Some usr
           \<or> (get_user_by_username db u2 = None \<and> CHR ''@'' \<in> set u2
               \<and> get_user_by_email db u2 = Some usr)"
  shows "crud_authenticate_user pwd_context db u2 p2 =
          (case ctx_verify pwd_context p2 (hashed_password usr) of
              Inl e \<Rightarrow> Inl e
            | Inr ok \<Rightarrow> if ok then Inr (Some usr) else Inr None)"
  using assms by (auto simp: crud_authenticate_user_def split: sum.splits)

lemma login_success:
  assumes "login_for_access_token pwd_context mac db form t0 = Inr tok"
  shows "\<exists>u0 \<in> set (users db).
           crud_authenticate_user pwd_context db (form_username form) (form_password form) = Inr (Some u0)
         \<and> tok = \<lparr>access_token =
                    create_access_token mac \<lparr>sub = Some (username u0), exp = None, iat = None\<rparr>
                      (Some (minutes 30)) t0,
                  token_type = ''bearer''\<rparr>"
  using assms
  apply (auto simp: login_for_access_token_def auth_authenticate_user_def Let_def ACCESS_TOKEN_EXPIRE_MINUTES_def
      split: sum.splits option.splits)
  apply (auto simp: crud_authenticate_user_def get_user_by_username_def get_user_by_email_def Let_def 
       split: sum.splits option.splits if_splits dest: find_Some_iff[THEN iffD1])
  done

lemma timegm_minutes: "timegm (t + minutes n) = timegm t + 60 * n"
proof -
  have "t + n * 60000000 = t + (60 * n) * 1000000" by simp
  then have "(t + n * 60000000) div 1000000 = (t + (60 * n) * 1000000) div 1000000"
    by (rule arg_cong)
  also have "\<dots> = t div 1000000 + 60 * n"
    by simp
  finally show ?thesis by (simp only: timegm_def minutes_def)
qed

lemma minutes_30_nonzero: "minutes 30 \<noteq> 0"
  by (simp add: minutes_def)

lemma create_access_token_30:
  "create_access_token mac \<lparr>sub = Some n, exp = None, iat = None\<rparr> (Some (minutes 30)) t0
     = JWT ALGORITHM \<lparr>sub = Some n, exp = Some (timegm t0 + 1800), iat = Some (timegm t0)\<rparr>
         (mac SECRET_KEY ALGORITHM
            \<lparr>sub = Some n, exp = Some (timegm t0 + 1800), iat = Some (timegm t0)\<rparr>)"
  by (simp add: create_access_token_def jwt_encode_def Let_def timegm_minutes minutes_30_nonzero)

lemma jwt_decode_issued:
  "jwt_decode mac (JWT ALGORITHM \<lparr>sub = s, exp = Some e, iat = i\<rparr>
       (mac SECRET_KEY ALGORITHM \<lparr>sub = s, exp = Some e, iat = i\<rparr>)) SECRET_KEY [ALGORITHM] t
     = (if timegm t < e then Inr \<lparr>sub = s, exp = Some e, iat = i\<rparr> else Inl ExpiredToken)"
  by (simp add: jwt_decode_def)

section \<open>Ownership of inventory items\<close>

text \<open>
  Claim C1. Let the bearer token of a request resolve to the principal
  \<open>current_user\<close>. Reading, updating and deleting \<open>/api/items/{item_id}\<close> then raise
  404 when no item has that id; raise 403 when the item exists and its \<open>owner_id\<close> is
  not the id of the principal; and otherwise go on: the read returns the item, the
  update is the result of \<open>crud.update_item\<close>, the delete removes the item (or is the
  500 of a store failure). The item is looked up first, so a missing item is a 404
  whoever asks, and the two statuses stay apart in the response.
\<close>

theorem item_operations_not_found_then_forbidden:
  assumes "get_current_active_user mac tok db now = Inr current_user"
  shows
    "(get_item db iid = None \<longrightarrow>
        read_item mac tok db now iid
          = Inl (HTTP \<lparr>status_code = 404, detail = ''Item not found'', headers = []\<rparr>)
      \<and> update_item mac fault tok db now iid item
          = Inl (HTTP \<lparr>status_code = 404, detail = ''Item not found'', headers = []\<rparr>)
      \<and> delete_item mac fault tok db now iid
          = Inl (HTTP \<lparr>status_code = 404, detail = ''Item not found'', headers = []\<rparr>)
      \<and> response_status (response fmt started ended 200 (read_item mac tok db now iid)) = 404
      \<and> response_status
           (response fmt started ended 200
              (returned (update_item mac fault tok db now iid item))) = 404
      \<and> response_status
           (response fmt started ended 204
              (returned (delete_item mac fault tok db now iid))) = 404)
   \<and> (\<forall>db_item. get_item db iid = Some db_item
          \<and> owner_id db_item \<noteq> Some (user_id current_user) \<longrightarrow>
        read_item mac tok db now iid
          = Inl (HTTP \<lparr>status_code = 403, detail = ''Not enough permissions'',
                       headers = []\<rparr>)
      \<and> update_item mac fault tok db now iid item
          = Inl (HTTP \<lparr>status_code = 403, detail = ''Not enough permissions'',
                       headers = []\<rparr>)
      \<and> delete_item mac fault tok db now iid
          = Inl (HTTP \<lparr>status_code = 403, detail = ''Not enough permissions'',
                       headers = []\<rparr>)
      \<and> response_status (response fmt started ended 200 (read_item mac tok db now iid)) = 403
      \<and> response_status
           (response fmt started ended 200
              (returned (update_item mac fault tok db now iid item))) = 403
      \<and> response_status
           (response fmt started ended 204
              (returned (delete_item mac fault tok db now iid))) = 403)
   \<and> (\<forall>db_item. get_item db iid = Some db_item
          \<and> owner_id db_item = Some (user_id current_user) \<longrightarrow>
        read_item mac tok db now iid = Inr db_item
      \<and> update_item mac fault tok db now iid item
          = crud_update_item fault db db_item item now
      \<and> delete_item mac fault tok db now iid
          = (case fault of
               None \<Rightarrow>
                 Inr (db\<lparr>inventory_items :=
                           filter (\<lambda>i. item_id i \<noteq> item_id db_item) (inventory_items db)\<rparr>,
                      True)
             | Some msg \<Rightarrow>
                 Inl (HTTP \<lparr>status_code = 500, detail = ''Error deleting item: '' @ msg,
                            headers = []\<rparr>)))"
  using assms
  by (auto simp: read_item_def update_item_def delete_item_def crud_delete_item_def
        response_def returned_def http_exception_handler_def add_process_time_header_def
        split: option.splits)

theorem item_operations_witness:
  "get_current_active_user example_mac alice_token example_db (minutes 1) = Inr alice
   \<and> read_item example_mac alice_token example_db (minutes 1) 3
       = Inl (HTTP \<lparr>status_code = 404, detail = ''Item not found'', headers = []\<rparr>)
   \<and> read_item example_mac alice_token example_db (minutes 1) 2
       = Inl (HTTP \<lparr>status_code = 403, detail = ''Not enough permissions'', headers = []\<rparr>)
   \<and> read_item example_mac alice_token example_db (minutes 1) 1 = Inr laptop"
proof -
  have h: "get_current_active_user example_mac alice_token example_db (minutes 1) = Inr alice"
    by (simp add: server_defs example_defs)
  have i3: "get_item example_db 3 = None"
    by (simp add: get_item_def example_defs)
  have i2: "get_item example_db 2 = Some desk \<and> owner_id desk \<noteq> Some (user_id alice)"
    by (simp add: get_item_def example_defs)
  have i1: "get_item example_db 1 = Some laptop \<and> owner_id laptop = Some (user_id alice)"
    by (simp add: get_item_def example_defs)
  note T = item_operations_not_found_then_forbidden
             [OF h, where fault = None and item = "\<lparr>iu_name = None, iu_description = None,
                iu_quantity = None, iu_price = None\<rparr>" and fmt = example_format
              and started = 0 and ended = 100]
  from T [of 3] i3 T [of 2] i2 T [of 1] i1 h show ?thesis
    by blast
qed

section \<open>Login\<close>

text \<open>
  Claim C2, amended. A login with a name that no principal has (as username, or as
  email when the name contains \<open>@\<close>) and a login with the name of a principal and a
  password that does not verify raise the same exception, 401 with the detail
  \<open>Incorrect username or password\<close>. Both responses have status 401 and that detail as
  content, and one header, \<open>X-Process-Time\<close>, with the processing time that the timing
  middleware measured for the request: the two responses are equal exactly when the
  texts of the two processing times are.
\<close>

theorem login_failures_same_status_and_message:
  assumes "get_user_by_username db u1 = None"
      and "CHR ''@'' \<notin> set u1 \<or> get_user_by_email db u1 = None"
      and "get_user_by_username db u2 = Some usr
           \<or> (get_user_by_username db u2 = None \<and> CHR ''@'' \<in> set u2
               \<and> get_user_by_email db u2 = Some usr)"
      and "ctx_verify pwd_context p2 (hashed_password usr) = Inr False"
  shows
    "login_for_access_token pwd_context mac db
        \<lparr>form_username = u1, form_password = p1\<rparr> now1
       = Inl (HTTP \<lparr>status_code = 401, detail = ''Incorrect username or password'',
                    headers = [(''WWW-Authenticate'', ''Bearer'')]\<rparr>)
     \<and> login_for_access_token pwd_context mac db
        \<lparr>form_username = u2, form_password = p2\<rparr> now2
       = Inl (HTTP \<lparr>status_code = 401, detail = ''Incorrect username or password'',
                    headers = [(''WWW-Authenticate'', ''Bearer'')]\<rparr>)
     \<and> response fmt start1 end1 200 (login_for_access_token pwd_context mac db
          \<lparr>form_username = u1, form_password = p1\<rparr> now1)
       = \<lparr>response_status = 401,
          response_content = Detail ''Incorrect username or password'',
          response_headers = [(''X-Process-Time'', fmt (end1 - start1))]\<rparr>
     \<and> response fmt start2 end2 200 (login_for_access_token pwd_context mac db
          \<lparr>form_username = u2, form_password = p2\<rparr> now2)
       = \<lparr>response_status = 401,
          response_content = Detail ''Incorrect username or password'',
          response_headers = [(''X-Process-Time'', fmt (end2 - start2))]\<rparr>
     \<and> (response fmt start1 end1 200 (login_for_access_token pwd_context mac db
            \<lparr>form_username = u1, form_password = p1\<rparr> now1)
          = response fmt start2 end2 200 (login_for_access_token pwd_context mac db
              \<lparr>form_username = u2, form_password = p2\<rparr> now2)
        \<longleftrightarrow> fmt (end1 - start1) = fmt (end2 - start2))"
proof -
  have 1: "crud_authenticate_user pwd_context db u1 p1 = Inr None"
    using assms(1,2) by (rule authenticate_None)
  have 2: "crud_authenticate_user pwd_context db u2 p2 = Inr None"
    using authenticate_found [OF assms(3), of pwd_context p2] assms(4) by simp
  show ?thesis
    by (simp add: login_for_access_token_def auth_authenticate_user_def 1 2
          response_def http_exception_handler_def add_process_time_header_def)
qed

theorem login_failures_witness:
  "login_for_access_token example_pwd_context example_mac example_db
      \<lparr>form_username = ''mallory'', form_password = ''Passw0rd1''\<rparr> 50
     = Inl (HTTP \<lparr>status_code = 401, detail = ''Incorrect username or password'',
                  headers = [(''WWW-Authenticate'', ''Bearer'')]\<rparr>)
   \<and> login_for_access_token example_pwd_context example_mac example_db
      \<lparr>form_username = ''alice'', form_password = ''wrong''\<rparr> 50
     = Inl (HTTP \<lparr>status_code = 401, detail = ''Incorrect username or password'',
                  headers = [(''WWW-Authenticate'', ''Bearer'')]\<rparr>)
   \<and> response example_format 0 100 200
        (login_for_access_token example_pwd_context example_mac example_db
           \<lparr>form_username = ''mallory'', form_password = ''Passw0rd1''\<rparr> 50)
     = \<lparr>response_status = 401,
        response_content = Detail ''Incorrect username or password'',
        response_headers = [(''X-Process-Time'', ''0.10ms'')]\<rparr>
   \<and> response example_format 0 95300 200
        (login_for_access_token example_pwd_context example_mac example_db
           \<lparr>form_username = ''alice'', form_password = ''wrong''\<rparr> 50)
     = \<lparr>response_status = 401,
        response_content = Detail ''Incorrect username or password'',
        response_headers = [(''X-Process-Time'', ''95.30ms'')]\<rparr>"
proof -
  have a: "get_user_by_username example_db ''mallory'' = None"
    by (simp add: get_user_by_username_def example_defs)
  have b: "CHR ''@'' \<notin> set ''mallory'' \<or> get_user_by_email example_db ''mallory'' = None"
    by simp
  have c: "get_user_by_username example_db ''alice'' = Some alice
           \<or> (get_user_by_username example_db ''alice'' = None \<and> CHR ''@'' \<in> set ''alice''
               \<and> get_user_by_email example_db ''alice'' = Some alice)"
    by (simp add: get_user_by_username_def example_defs)
  have d: "ctx_verify example_pwd_context ''wrong'' (hashed_password alice) = Inr False"
    by (simp add: example_defs)
  have e: "example_format (100 - 0) = ''0.10ms''" and f: "example_format (95300 - 0) = ''95.30ms''"
    by (simp_all add: example_format_def digits.simps)
  from login_failures_same_status_and_message
         [OF a b c d, of example_mac "''Passw0rd1''" 50 50 example_format 0 100 0 95300,
          unfolded e f]
  show ?thesis by blast
qed

text \<open>
  Claim C2 as stated fails: the login of the unknown \<open>mallory\<close>, processed in 0.1
  milliseconds, and the login of \<open>alice\<close> with a wrong password, processed in 95.3
  milliseconds, get responses that differ in the \<open>X-Process-Time\<close> header.
\<close>

theorem login_failures_process_time_counterexample:
  "response example_format 0 100 200
      (login_for_access_token example_pwd_context example_mac example_db
         \<lparr>form_username = ''mallory'', form_password = ''Passw0rd1''\<rparr> 50)
     \<noteq> response example_format 0 95300 200
         (login_for_access_token example_pwd_context example_mac example_db
            \<lparr>form_username = ''alice'', form_password = ''wrong''\<rparr> 50)"
  by (simp add: login_for_access_token_def auth_authenticate_user_def
        crud_authenticate_user_def get_user_by_username_def get_user_by_email_def
        response_def http_exception_handler_def add_process_time_header_def
        example_format_def digits.simps example_defs)

text \<open>
  Claim C3. A token that a login issued at \<open>t0\<close> carries an expiry 1800 seconds after
  \<open>t0\<close>. At \<open>t0\<close> plus 29 minutes it decodes, its subject is the username of a
  principal \<open>u\<close> of the store, and \<open>get_current_user\<close> returns \<open>u\<close> (a 400 if \<open>u\<close> is
  inactive). At \<open>t0\<close> plus 31 minutes it is expired and \<open>get_current_user\<close> raises the
  401 \<open>credentials_exception\<close>, whatever the store holds.
\<close>

theorem token_resolves_at_29_expires_at_31:
  assumes "login_for_access_token pwd_context mac db form t0 = Inr tok"
  shows
    "(\<exists>u \<in> set (users db).
        jwt_decode mac (access_token tok) SECRET_KEY [ALGORITHM] (t0 + minutes 29)
          = Inr \<lparr>sub = Some (username u), exp = Some (timegm t0 + 1800),
                 iat = Some (timegm t0)\<rparr>
      \<and> get_user_by_username db (username u) = Some u
      \<and> get_current_user mac (access_token tok) db (t0 + minutes 29)
          = (if is_active u then Inr u
             else Inl (HTTP \<lparr>status_code = 400, detail = ''Inactive user'', headers = []\<rparr>)))
     \<and> (\<forall>db' :: 'q Session.
          jwt_decode mac (access_token tok) SECRET_KEY [ALGORITHM] (t0 + minutes 31)
            = Inl ExpiredToken
        \<and> get_current_user mac (access_token tok) db' (t0 + minutes 31)
            = Inl (HTTP credentials_exception)
        \<and> response_status (response fmt started ended 200
              (get_current_user mac (access_token tok) db' (t0 + minutes 31))) = 401)"
proof -
  from login_success [OF assms] obtain u0 where
    u0: "u0 \<in> set (users db)" and
    tok: "tok = \<lparr>access_token =
                    create_access_token mac \<lparr>sub = Some (username u0), exp = None, iat = None\<rparr>
                      (Some (minutes 30)) t0,
                  token_type = ''bearer''\<rparr>"
    by blast
  from find_some_member [OF u0, of "\<lambda>x. username x = username u0"]
  obtain u where u: "get_user_by_username db (username u0) = Some u"
    by (auto simp: get_user_by_username_def)
  then have un: "username u = username u0" and uin: "u \<in> set (users db)"
    using find_username [of "username u0" "users db" u]
    by (simp_all add: get_user_by_username_def)
  have early: "timegm (t0 + minutes 29) < timegm t0 + 1800"
    by (simp add: timegm_minutes)
  have late: "\<not> timegm (t0 + minutes 31) < timegm t0 + 1800"
    by (simp add: timegm_minutes)
  have a: "jwt_decode mac (access_token tok) SECRET_KEY [ALGORITHM] (t0 + minutes 29)
          = Inr \<lparr>sub = Some (username u), exp = Some (timegm t0 + 1800),
                 iat = Some (timegm t0)\<rparr>"
    by (simp add: tok create_access_token_30 jwt_decode_issued early un)
  have b: "jwt_decode mac (access_token tok) SECRET_KEY [ALGORITHM] (t0 + minutes 31)
            = Inl ExpiredToken"
    by (simp add: tok create_access_token_30 jwt_decode_issued late)
  have c: "get_current_user mac (access_token tok) db (t0 + minutes 29)
          = (if is_active u then Inr u
             else Inl (HTTP \<lparr>status_code = 400, detail = ''Inactive user'', headers = []\<rparr>))"
    using u by (simp add: get_current_user_def a un)
  have d: "get_current_user mac (access_token tok) db' (t0 + minutes 31)
            = Inl (HTTP credentials_exception)" for db' :: "'q Session"
    by (simp add: get_current_user_def b)
  have e: "response_status (response fmt started ended 200
              (get_current_user mac (access_token tok) db' (t0 + minutes 31))) = 401"
    for db' :: "'q Session"
    by (simp add: d response_def http_exception_handler_def credentials_exception_def
          add_process_time_header_def)
  from a u c un uin have first: "\<exists>u \<in> set (users db).
        jwt_decode mac (access_token tok) SECRET_KEY [ALGORITHM] (t0 + minutes 29)
          = Inr \<lparr>sub = Some (username u), exp = Some (timegm t0 + 1800),
                 iat = Some (timegm t0)\<rparr>
      \<and> get_user_by_username db (username u) = Some u
      \<and> get_current_user mac (access_token tok) db (t0 + minutes 29)
          = (if is_active u then Inr u
             else Inl (HTTP \<lparr>status_code = 400, detail = ''Inactive user'', headers = []\<rparr>))"
    by (intro bexI [of _ u]) simp_all
  show ?thesis using first b d e by blast
qed

theorem token_resolves_witness:
  "login_for_access_token example_pwd_context example_mac example_db
      \<lparr>form_username = ''alice'', form_password = ''Passw0rd1''\<rparr> 0
     = Inr \<lparr>access_token = alice_token, token_type = ''bearer''\<rparr>
   \<and> get_current_user example_mac alice_token example_db (minutes 29) = Inr alice
   \<and> get_current_user example_mac alice_token example_db (minutes 31)
       = Inl (HTTP credentials_exception)"
proof -
  have h: "login_for_access_token example_pwd_context example_mac example_db
      \<lparr>form_username = ''alice'', form_password = ''Passw0rd1''\<rparr> 0
     = Inr \<lparr>access_token = alice_token, token_type = ''bearer''\<rparr>"
    by (simp add: server_defs example_defs)
  have u: "get_user_by_username example_db (username u) = Some u \<Longrightarrow> 
      jwt_decode example_mac alice_token SECRET_KEY [ALGORITHM] (minutes 29)
          = Inr \<lparr>sub = Some (username u), exp = Some (timegm 0 + 1800),
                 iat = Some (timegm 0)\<rparr> \<Longrightarrow> u = alice" for u
    by (simp add: server_defs example_defs split: if_splits)
  have e: "get_current_user example_mac alice_token example_db (minutes 31)
       = Inl (HTTP credentials_exception)"
    using token_resolves_at_29_expires_at_31
      [OF h, where 'q = nat and fmt = example_format and started = 0 and ended = 100] by simp
  from token_resolves_at_29_expires_at_31
      [OF h, where 'q = nat and fmt = example_format and started = 0 and ended = 100]
  obtain u where l: "get_user_by_username example_db (username u) = Some u"
    and d: "jwt_decode example_mac alice_token SECRET_KEY [ALGORITHM] (minutes 29)
          = Inr \<lparr>sub = Some (username u), exp = Some (timegm 0 + 1800),
                 iat = Some (timegm 0)\<rparr>"
    and g: "get_current_user example_mac alice_token example_db (minutes 29)
          = (if is_active u then Inr u
             else Inl (HTTP \<lparr>status_code = 400, detail = ''Inactive user'', headers = []\<rparr>))"
    by auto
  from l d have "u = alice" by (rule u)
  with g have "get_current_user example_mac alice_token example_db (minutes 29) = Inr alice"
    by (simp add: alice_def)
  with h e show ?thesis by simp
qed

section \<open>Protected calls\<close>

text \<open>
  What \<open>get_current_user\<close> raises: the 401 \<open>credentials_exception\<close> when the token does
  not decode (unparseable, unsupported algorithm, bad signature, expired), has no
  subject, or names no principal; a 400 when the principal is inactive.
\<close>

lemma jwt_decode_failures:
  "jwt_decode mac (Unparseable s) key algs now = Inl MalformedToken"
  "signature \<noteq> mac key alg payload \<Longrightarrow>
     jwt_decode mac (JWT alg payload signature) key algs now = Inl MalformedToken"
  "alg \<notin> set algs \<Longrightarrow>
     jwt_decode mac (JWT alg payload signature) key algs now = Inl MalformedToken"
  "alg \<in> set algs \<Longrightarrow> exp payload = Some expiry \<Longrightarrow> expiry \<le> timegm now \<Longrightarrow>
     jwt_decode mac (JWT alg payload (mac key alg payload)) key algs now = Inl ExpiredToken"
  by (simp_all add: jwt_decode_def)

lemma get_current_user_unauthorized:
  assumes "(\<exists>e. jwt_decode mac tok SECRET_KEY [ALGORITHM] now = Inl e)
         \<or> (\<exists>payload. jwt_decode mac tok SECRET_KEY [ALGORITHM] now = Inr payload
               \<and> (sub payload = None
                   \<or> (\<exists>uname. sub payload = Some uname
                         \<and> get_user_by_username db uname = None)))"
  shows "get_current_user mac tok db now = Inl (HTTP credentials_exception)"
  using assms by (auto simp: get_current_user_def)

lemma get_current_user_inactive:
  assumes "jwt_decode mac tok SECRET_KEY [ALGORITHM] now = Inr payload"
      and "sub payload = Some uname"
      and "get_user_by_username db uname = Some usr"
      and "\<not> is_active usr"
  shows "get_current_user mac tok db now
           = Inl (HTTP \<lparr>status_code = 400, detail = ''Inactive user'', headers = []\<rparr>)"
  using assms by (simp add: get_current_user_def)

text \<open>No response carries a header of the exception: \<open>http_exception_handler\<close>
  passes the status and the detail only, and the one header that a response can have
  is the \<open>X-Process-Time\<close> of the middleware.\<close>

lemma response_headers_process_time_only:
  "response_headers (response fmt started ended route_status result) = []
   \<or> response_headers (response fmt started ended route_status result)
       = [(''X-Process-Time'', fmt (ended - started))]"
  by (auto simp: response_def http_exception_handler_def global_exception_handler_def
        add_process_time_header_def split: sum.splits exn.splits)

text \<open>
  Claim C4. A protected call with a token that does not parse: \<open>get_current_user\<close>
  raises \<open>credentials_exception\<close>, status 401 with the header
  \<open>WWW-Authenticate: Bearer\<close>, but the response that \<open>http_exception_handler\<close> builds
  from it has status 401, the detail, and no \<open>WWW-Authenticate\<close> header: its one
  header is the \<open>X-Process-Time\<close> of the middleware.
\<close>

theorem unauthorized_response_without_header:
  "get_current_user mac (Unparseable s) db now = Inl (HTTP credentials_exception)
   \<and> headers credentials_exception = [(''WWW-Authenticate'', ''Bearer'')]
   \<and> read_users_me mac (Unparseable s) db now = Inl (HTTP credentials_exception)
   \<and> response fmt started ended 200 (read_users_me mac (Unparseable s) db now)
       = \<lparr>response_status = 401,
          response_content = Detail ''Could not validate credentials'',
          response_headers = [(''X-Process-Time'', fmt (ended - started))]\<rparr>
   \<and> map_of (response_headers
         (response fmt started ended 200 (read_users_me mac (Unparseable s) db now)))
        ''WWW-Authenticate'' = None"
  by (simp add: read_users_me_def get_current_active_user_def get_current_user_def
        jwt_decode_def credentials_exception_def response_def http_exception_handler_def
        add_process_time_header_def)

section \<open>Registration\<close>

text \<open>
  A registration whose username, or whose email, is taken raises a \<open>ValueError\<close> in
  \<open>crud.create_user\<close>; \<open>register_user\<close> does not catch it, so the response is the 500 of
  \<open>global_exception_handler\<close>, built outside the timing middleware. No principal is
  created.
\<close>

lemma duplicate_username_internal_error:
  assumes "get_user_by_username db (uc_username req) \<noteq> None"
  shows "register_user pwd_context salt fault db req now
           = Inl (ValueError ''Username already registered'')
       \<and> response fmt started ended 201
             (returned (register_user pwd_context salt fault db req now))
           = \<lparr>response_status = 500, response_content = Detail ''Internal server error'',
              response_headers = []\<rparr>"
  using assms
  by (auto simp: register_user_def create_user_def returned_def response_def
        global_exception_handler_def)

lemma duplicate_email_internal_error:
  assumes "get_user_by_username db (uc_username req) = None"
      and "uc_email req = Some mail" and "mail \<noteq> []"
      and "get_user_by_email db mail \<noteq> None"
  shows "register_user pwd_context salt fault db req now
           = Inl (ValueError ''Email already registered'')
       \<and> response fmt started ended 201
             (returned (register_user pwd_context salt fault db req now))
           = \<lparr>response_status = 500, response_content = Detail ''Internal server error'',
              response_headers = []\<rparr>"
  using assms
  by (auto simp: register_user_def create_user_def returned_def response_def
        global_exception_handler_def)

text \<open>
  Claim C5. Registering the username \<open>alice\<close>, or the email of \<open>alice\<close>, a second time:
  \<open>register_user\<close> raises \<open>ValueError\<close> and the client receives status 500 with the
  detail \<open>Internal server error\<close>, not a conflict.
\<close>

theorem duplicate_registration_internal_error:
  "register_user example_pwd_context ''s3'' None example_db
      \<lparr>uc_username = ''alice'', uc_email = None, uc_password = ''Passw0rd1''\<rparr> now
     = Inl (ValueError ''Username already registered'')
   \<and> response fmt started ended 201 (returned (register_user example_pwd_context ''s3'' None example_db
        \<lparr>uc_username = ''alice'', uc_email = None, uc_password = ''Passw0rd1''\<rparr> now))
     = \<lparr>response_status = 500, response_content = Detail ''Internal server error'',
        response_headers = []\<rparr>
   \<and> register_user example_pwd_context ''s3'' None example_db
      \<lparr>uc_username = ''alice2'', uc_email = Some ''alice@example.com'',
       uc_password = ''Passw0rd1''\<rparr> now
     = Inl (ValueError ''Email already registered'')
   \<and> response fmt started ended 201 (returned (register_user example_pwd_context ''s3'' None example_db
        \<lparr>uc_username = ''alice2'', uc_email = Some ''alice@example.com'',
         uc_password = ''Passw0rd1''\<rparr> now))
     = \<lparr>response_status = 500, response_content = Detail ''Internal server error'',
        response_headers = []\<rparr>"
  by (simp add: register_user_def create_user_def returned_def response_def
        global_exception_handler_def get_user_by_username_def get_user_by_email_def
        example_defs)

section \<open>The signing secret\<close>

text \<open>
  Claim C6. Whatever the environment of the process holds, also nothing, \<open>auth.py\<close>
  loads without raising and binds \<open>SECRET_KEY\<close> to the literal in the source; a login
  then issues a token signed with that literal.
\<close>

theorem secret_key_is_hard_coded:
  "auth_module environ
     = Inr \<lparr>secret_key = ''your-secret-key-please-change-in-production'',
            algorithm = ''HS256'', access_token_expire_minutes = 30\<rparr>
   \<and> login_for_access_token example_pwd_context mac example_db
        \<lparr>form_username = ''alice'', form_password = ''Passw0rd1''\<rparr> t0
     = Inr \<lparr>access_token =
              JWT ''HS256''
                \<lparr>sub = Some ''alice'', exp = Some (timegm t0 + 1800),
                 iat = Some (timegm t0)\<rparr>
                (mac ''your-secret-key-please-change-in-production'' ''HS256''
                  \<lparr>sub = Some ''alice'', exp = Some (timegm t0 + 1800),
                   iat = Some (timegm t0)\<rparr>),
            token_type = ''bearer''\<rparr>"
proof -
  have "crud_authenticate_user example_pwd_context example_db ''alice'' ''Passw0rd1''
          = Inr (Some alice)"
    by (simp add: crud_authenticate_user_def get_user_by_username_def example_defs)
  then show ?thesis
    by (simp add: auth_module_def login_for_access_token_def auth_authenticate_user_def
          ACCESS_TOKEN_EXPIRE_MINUTES_def create_access_token_30 alice_def)
       (simp add: SECRET_KEY_def ALGORITHM_def)
qed

section \<open>Client session timeout\<close>

text \<open>
  Claim C7, amended. In a session that holds a token and a user and whose last
  activity was at \<open>previous\<close>, an interaction at \<open>now\<close> refreshes the last activity to
  \<open>now\<close> if and only if \<open>now - previous\<close> is at most 30 minutes. When more than 30
  minutes have passed, the run of \<open>main\<close> clears token, user and last activity, shows
  the timeout message and sends no request; the next run shows the login form.
\<close>

theorem session_timeout_after_30_minutes:
  assumes "token st = Some t" and "t \<noteq> []" and "user st = Some u"
      and "last_activity st = Some previous"
  shows
    "(last_activity (fst (check_session_timeout st now)) = Some now
        \<longleftrightarrow> now - previous \<le> minutes 30)
     \<and> (now - previous \<le> minutes 30 \<longrightarrow>
          check_session_timeout st now = (st\<lparr>last_activity := Some now\<rparr>, [], True))
     \<and> (minutes 30 < now - previous \<longrightarrow>
          main api st now
            = (st\<lparr>token := None, user := None, last_activity := None\<rparr>,
               [st_error ''Your session has timed out. Please log in again.''])
        \<and> (\<forall>later.
             main api (st\<lparr>token := None, user := None, last_activity := None\<rparr>) later
               = (st\<lparr>token := None, user := None, last_activity := None\<rparr>,
                  [show_login_form])))"
  using assms
  by (auto simp: check_session_timeout_def main_def Let_def)

theorem session_timeout_witness:
  "check_session_timeout example_session (minutes 30)
     = (example_session\<lparr>last_activity := Some (minutes 30)\<rparr>, [], True)
   \<and> main example_api example_session (minutes 31)
     = (example_session\<lparr>token := None, user := None, last_activity := None\<rparr>,
        [st_error ''Your session has timed out. Please log in again.''])"
proof -
  have a: "token example_session = Some ''header.payload.signature''"
    and b: "''header.payload.signature'' \<noteq> []"
    and c: "user example_session = Some ''alice''"
    and d: "last_activity example_session = Some 0"
    by (simp_all add: example_session_def)
  have e: "minutes 30 - 0 \<le> minutes 30" and f: "minutes 30 < minutes 31 - 0"
    by (simp_all add: minutes_def)
  from session_timeout_after_30_minutes [OF a b c d, of "minutes 30" example_api] e
    session_timeout_after_30_minutes [OF a b c d, of "minutes 31" example_api] f
  show ?thesis by blast
qed

text \<open>
  Claim C7 as stated fails when exactly 30 minutes have passed: the session is
  refreshed, although \<open>now - previous < 30 minutes\<close> is false.
\<close>

theorem session_refreshed_at_30_minutes_counterexample:
  "\<not> (last_activity (fst (check_session_timeout example_session (minutes 30)))
         = Some (minutes 30)
       \<longleftrightarrow> minutes 30 - 0 < minutes 30)"
  by (simp add: check_session_timeout_def example_session_def minutes_def)

section \<open>Login and the active flag\<close>

lemma find_username_set_active:
  "find (\<lambda>x. username x = n) (map (\<lambda>x. x\<lparr>is_active := f x\<rparr>) xs)
     = map_option (\<lambda>x. x\<lparr>is_active := f x\<rparr>) (find (\<lambda>x. username x = n) xs)"
  by (induction xs) auto

lemma find_email_set_active:
  "find (\<lambda>x. email x = m) (map (\<lambda>x. x\<lparr>is_active := f x\<rparr>) xs)
     = map_option (\<lambda>x. x\<lparr>is_active := f x\<rparr>) (find (\<lambda>x. email x = m) xs)"
  by (induction xs) auto

lemma authenticate_set_active:
  "crud_authenticate_user pwd_context
      (db\<lparr>users := map (\<lambda>x. x\<lparr>is_active := f x\<rparr>) (users db)\<rparr>) uname password
     = map_sum id (map_option (\<lambda>x. x\<lparr>is_active := f x\<rparr>))
         (crud_authenticate_user pwd_context db uname password)"
  by (auto simp: crud_authenticate_user_def get_user_by_username_def get_user_by_email_def
        find_username_set_active find_email_set_active Let_def
        split: option.splits sum.splits)

lemma login_set_active:
  "login_for_access_token pwd_context mac
      (db\<lparr>users := map (\<lambda>x. x\<lparr>is_active := f x\<rparr>) (users db)\<rparr>) form t0
     = login_for_access_token pwd_context mac db form t0"
  by (auto simp: login_for_access_token_def auth_authenticate_user_def
        authenticate_set_active Let_def split: option.splits sum.splits)

text \<open>
  Claim C9. When the submitted name finds a principal (by username, or by email) and
  the password verifies against its hash, the login returns a bearer token whose
  subject is the username of the principal, whether the principal is active or not:
  setting the \<open>is_active\<close> flags of the store in any way leaves the result of the login
  unchanged. For an inactive principal, a protected call with that token, before it
  expires, raises 400.
\<close>

theorem login_ignores_is_active:
  assumes "get_user_by_username db uname = Some usr
           \<or> (get_user_by_username db uname = None \<and> CHR ''@'' \<in> set uname
               \<and> get_user_by_email db uname = Some usr)"
      and "ctx_verify pwd_context password (hashed_password usr) = Inr True"
  shows
    "login_for_access_token pwd_context mac db
        \<lparr>form_username = uname, form_password = password\<rparr> t0
       = Inr \<lparr>access_token =
                create_access_token mac
                  \<lparr>sub = Some (username usr), exp = None, iat = None\<rparr>
                  (Some (minutes 30)) t0,
              token_type = ''bearer''\<rparr>
     \<and> (\<forall>f. login_for_access_token pwd_context mac
              (db\<lparr>users := map (\<lambda>x. x\<lparr>is_active := f x\<rparr>) (users db)\<rparr>)
              \<lparr>form_username = uname, form_password = password\<rparr> t0
            = login_for_access_token pwd_context mac db
                \<lparr>form_username = uname, form_password = password\<rparr> t0)
     \<and> (\<not> is_active usr \<and> get_user_by_username db (username usr) = Some usr \<longrightarrow>
          (\<forall>t. timegm t < timegm t0 + 1800 \<longrightarrow>
             get_current_user mac
               (create_access_token mac
                  \<lparr>sub = Some (username usr), exp = None, iat = None\<rparr>
                  (Some (minutes 30)) t0) db t
               = Inl (HTTP \<lparr>status_code = 400, detail = ''Inactive user'',
                            headers = []\<rparr>)))"
proof -
  have "crud_authenticate_user pwd_context db uname password = Inr (Some usr)"
    using authenticate_found [OF assms(1), of pwd_context password] assms(2) by simp
  then have 1: "login_for_access_token pwd_context mac db
        \<lparr>form_username = uname, form_password = password\<rparr> t0
       = Inr \<lparr>access_token =
                create_access_token mac
                  \<lparr>sub = Some (username usr), exp = None, iat = None\<rparr>
                  (Some (minutes 30)) t0,
              token_type = ''bearer''\<rparr>"
    by (simp add: login_for_access_token_def auth_authenticate_user_def
          ACCESS_TOKEN_EXPIRE_MINUTES_def)
  have 3: "get_current_user mac
               (create_access_token mac
                  \<lparr>sub = Some (username usr), exp = None, iat = None\<rparr>
                  (Some (minutes 30)) t0) db t
               = Inl (HTTP \<lparr>status_code = 400, detail = ''Inactive user'',
                            headers = []\<rparr>)"
    if "\<not> is_active usr" "get_user_by_username db (username usr) = Some usr"
       "timegm t < timegm t0 + 1800" for t
    using that
    by (simp add: get_current_user_def create_access_token_30 jwt_decode_issued)
  from 1 3 login_set_active show ?thesis by blast
qed

theorem login_ignores_is_active_witness:
  "login_for_access_token example_pwd_context example_mac example_db
      \<lparr>form_username = ''bob'', form_password = ''Secret123''\<rparr> 0
     = Inr \<lparr>access_token =
              create_access_token example_mac
                \<lparr>sub = Some ''bob'', exp = None, iat = None\<rparr> (Some (minutes 30)) 0,
            token_type = ''bearer''\<rparr>
   \<and> \<not> is_active bob
   \<and> get_current_user example_mac
        (create_access_token example_mac
           \<lparr>sub = Some ''bob'', exp = None, iat = None\<rparr> (Some (minutes 30)) 0)
        example_db (minutes 1)
     = Inl (HTTP \<lparr>status_code = 400, detail = ''Inactive user'', headers = []\<rparr>)"
proof -
  have a: "get_user_by_username example_db ''bob'' = Some bob
           \<or> (get_user_by_username example_db ''bob'' = None \<and> CHR ''@'' \<in> set ''bob''
               \<and> get_user_by_email example_db ''bob'' = Some bob)"
    by (simp add: get_user_by_username_def example_defs)
  have b: "ctx_verify example_pwd_context ''Secret123'' (hashed_password bob) = Inr True"
    by (simp add: example_defs)
  have c: "\<not> is_active bob \<and> get_user_by_username example_db (username bob) = Some bob"
    by (simp add: get_user_by_username_def example_defs)
  have d: "timegm (minutes 1) < timegm 0 + 1800"
    by (simp add: timegm_def minutes_def)
  have e: "username bob = ''bob''"
    by (simp add: bob_def)
  from login_ignores_is_active [OF a b, of example_mac 0] c d e show ?thesis
    by simp
qed

section \<open>Login by email\<close>

text \<open>
  Claim C10. Let the submitted name be the username of no principal. If it contains
  \<open>@\<close> and is the email of a principal whose hash verifies the password, that
  principal is authenticated and the login returns a token for its username. If it
  contains no \<open>@\<close>, nobody is authenticated and the login raises 401, whatever the
  emails of the store are.
\<close>

theorem email_login_only_with_at_sign:
  assumes "get_user_by_username db uname = None"
  shows
    "(CHR ''@'' \<in> set uname \<and> get_user_by_email db uname = Some usr
        \<and> ctx_verify pwd_context password (hashed_password usr) = Inr True \<longrightarrow>
        crud_authenticate_user pwd_context db uname password = Inr (Some usr)
      \<and> login_for_access_token pwd_context mac db
           \<lparr>form_username = uname, form_password = password\<rparr> t0
          = Inr \<lparr>access_token =
                   create_access_token mac
                     \<lparr>sub = Some (username usr), exp = None, iat = None\<rparr>
                     (Some (minutes 30)) t0,
                 token_type = ''bearer''\<rparr>)
     \<and> (CHR ''@'' \<notin> set uname \<longrightarrow>
        crud_authenticate_user pwd_context db uname password = Inr None
      \<and> login_for_access_token pwd_context mac db
           \<lparr>form_username = uname, form_password = password\<rparr> t0
          = Inl (HTTP \<lparr>status_code = 401, detail = ''Incorrect username or password'',
                       headers = [(''WWW-Authenticate'', ''Bearer'')]\<rparr>))"
  using assms
  by (auto simp: crud_authenticate_user_def login_for_access_token_def
        auth_authenticate_user_def ACCESS_TOKEN_EXPIRE_MINUTES_def)

theorem email_login_witness:
  "login_for_access_token example_pwd_context example_mac example_db
      \<lparr>form_username = ''alice@example.com'', form_password = ''Passw0rd1''\<rparr> 0
     = Inr \<lparr>access_token = alice_token, token_type = ''bearer''\<rparr>
   \<and> get_user_by_email example_db ''carol.example.com'' = Some carol
   \<and> ctx_verify example_pwd_context ''Passw0rd3'' (hashed_password carol) = Inr True
   \<and> login_for_access_token example_pwd_context example_mac example_db
      \<lparr>form_username = ''carol.example.com'', form_password = ''Passw0rd3''\<rparr> 0
     = Inl (HTTP \<lparr>status_code = 401, detail = ''Incorrect username or password'',
                  headers = [(''WWW-Authenticate'', ''Bearer'')]\<rparr>)"
proof -
  have a: "get_user_by_username example_db ''alice@example.com'' = None"
    and b: "get_user_by_username example_db ''carol.example.com'' = None"
    by (simp_all add: get_user_by_username_def example_defs)
  have c: "CHR ''@'' \<in> set ''alice@example.com''
           \<and> get_user_by_email example_db ''alice@example.com'' = Some alice
           \<and> ctx_verify example_pwd_context ''Passw0rd1'' (hashed_password alice) = Inr True"
    by (simp add: get_user_by_email_def example_defs)
  have d: "CHR ''@'' \<notin> set ''carol.example.com''"
    by simp
  have e: "get_user_by_email example_db ''carol.example.com'' = Some carol
           \<and> ctx_verify example_pwd_context ''Passw0rd3'' (hashed_password carol) = Inr True"
    by (simp add: get_user_by_email_def example_defs)
  have f: "username alice = ''alice''"
    by (simp add: alice_def)
  from email_login_only_with_at_sign [OF a, of alice example_pwd_context "''Passw0rd1''" example_mac 0] c
    email_login_only_with_at_sign [OF b, of carol example_pwd_context "''Passw0rd3''" example_mac 0] d e f
  show ?thesis
    by (simp add: alice_token_def)
qed

end
